theory Spec2Isabelle
  imports Main
begin

section \<open>JavaScript values\<close>

text \<open>
  The values that \<^verbatim>\<open>JSON.parse\<close>, the XML parser and \<^verbatim>\<open>new Date\<close> produce. Numbers
  are integers (status codes, indices, epoch milliseconds); a date carries its time
  value, \<open>None\<close> being the invalid date. An object is its list of own properties in
  insertion order.
\<close>

datatype jsval =
    JUndefined
  | JNull
  | JBool bool
  | JNum int
  | JStr string
  | JDate "int option"
  | JArr "jsval list"
  | JObj "(string \<times> jsval) list"

type_synonym props = "(string \<times> jsval) list"

datatype error = ConfigError string | TypeError | SyntaxError

text \<open>The conditions of \<^verbatim>\<open>if (v)\<close>, \<^verbatim>\<open>v || w\<close> and \<^verbatim>\<open>!v\<close>.\<close>

fun js_truthy :: "jsval \<Rightarrow> bool" where
  "js_truthy JUndefined = False"
| "js_truthy JNull = False"
| "js_truthy (JBool b) = b"
| "js_truthy (JNum n) = (n \<noteq> 0)"
| "js_truthy (JStr s) = (s \<noteq> [])"
| "js_truthy (JDate t) = True"
| "js_truthy (JArr xs) = True"
| "js_truthy (JObj kvs) = True"

text \<open>
  \<^verbatim>\<open>a === b\<close> between two values that are not the same object: primitives compare by
  value, two distinct objects (arrays, dates, objects) are never identical.
\<close>

fun js_strict_eq :: "jsval \<Rightarrow> jsval \<Rightarrow> bool" where
  "js_strict_eq JUndefined JUndefined = True"
| "js_strict_eq JNull JNull = True"
| "js_strict_eq (JBool a) (JBool b) = (a = b)"
| "js_strict_eq (JNum a) (JNum b) = (a = b)"
| "js_strict_eq (JStr a) (JStr b) = (a = b)"
| "js_strict_eq _ _ = False"

text \<open>\<^verbatim>\<open>__.isObject\<close> and \<^verbatim>\<open>__.isArray\<close>.\<close>

fun isObject :: "jsval \<Rightarrow> bool" where
  "isObject (JObj kvs) = True"
| "isObject (JArr xs) = True"
| "isObject (JDate t) = True"
| "isObject _ = False"

fun isArray :: "jsval \<Rightarrow> bool" where
  "isArray (JArr xs) = True"
| "isArray _ = False"

text \<open>
  Own properties: \<^verbatim>\<open>o[k]\<close>, \<^verbatim>\<open>o[k] = v\<close> and \<^verbatim>\<open>delete o[k]\<close> on a property list. A new
  key goes to the end, an existing key keeps its place.
\<close>

fun lookup :: "props \<Rightarrow> string \<Rightarrow> jsval" where
  "lookup [] k = JUndefined"
| "lookup ((k', v) # kvs) k = (if k' = k then v else lookup kvs k)"

fun assign :: "props \<Rightarrow> string \<Rightarrow> jsval \<Rightarrow> props" where
  "assign [] k v = [(k, v)]"
| "assign ((k', v') # kvs) k v = (if k' = k then (k, v) # kvs else (k', v') # assign kvs k v)"

definition delete :: "props \<Rightarrow> string \<Rightarrow> props" where
  "delete kvs k = filter (\<lambda>kv. fst kv \<noteq> k) kvs"

text \<open>
  \<^verbatim>\<open>v.name\<close> for the property names the source reads (none of them is \<^verbatim>\<open>length\<close> or an
  index): a \<^verbatim>\<open>TypeError\<close> on \<^verbatim>\<open>undefined\<close> and \<^verbatim>\<open>null\<close>, the own property of an
  object, \<^verbatim>\<open>undefined\<close> on every other value.
\<close>

fun js_get :: "jsval \<Rightarrow> string \<Rightarrow> error + jsval" where
  "js_get JUndefined k = Inl TypeError"
| "js_get JNull k = Inl TypeError"
| "js_get (JObj kvs) k = Inr (lookup kvs k)"
| "js_get _ k = Inr JUndefined"

text \<open>
  \<^verbatim>\<open>v.name = w\<close>: a \<^verbatim>\<open>TypeError\<close> on \<^verbatim>\<open>undefined\<close> and \<^verbatim>\<open>null\<close>, an update of an object,
  and no effect on a primitive (the file is not in strict mode). A named property
  of an array or of a date is not represented.
\<close>

fun js_set :: "jsval \<Rightarrow> string \<Rightarrow> jsval \<Rightarrow> error + jsval" where
  "js_set JUndefined k v = Inl TypeError"
| "js_set JNull k v = Inl TypeError"
| "js_set (JObj kvs) k v = Inr (JObj (assign kvs k v))"
| "js_set w k v = Inr w"

section \<open>The collaborators outside the module\<close>

text \<open>
  The JavaScript engine and the libraries the module requires are parameters of the
  model:
  \<^item> \<open>json_parse\<close> is \<^verbatim>\<open>JSON.parse\<close>, \<open>None\<close> when it throws a \<^verbatim>\<open>SyntaxError\<close>;
  \<^item> \<open>xml_parse\<close> is \<^verbatim>\<open>xml2jsParser.parseString\<close>: the pair \<^verbatim>\<open>(err, data)\<close> it hands
    to its callback, which it calls once;
  \<^item> \<open>date_parse\<close> is the time value \<^verbatim>\<open>new Date(s)\<close> computes from a string;
  \<^item> \<open>to_string\<close> is the string conversion of a value that is not a string;
  \<^item> \<open>url_extname\<close> is \<^verbatim>\<open>pathLib.extname(urlLib.parse(d).pathname).slice(1)\<close>, which
    may throw.
\<close>

record host =
  json_parse :: "string \<Rightarrow> jsval option"
  xml_parse :: "string \<Rightarrow> jsval \<times> jsval"
  date_parse :: "string \<Rightarrow> int option"
  to_string :: "jsval \<Rightarrow> string"
  url_extname :: "jsval \<Rightarrow> error + string"

fun js_toString :: "host \<Rightarrow> jsval \<Rightarrow> string" where
  "js_toString H (JStr s) = s"
| "js_toString H v = to_string H v"

text \<open>
  The transport: \<^verbatim>\<open>request.get\<close> and \<^verbatim>\<open>request.post\<close>. The module reads only
  \<^verbatim>\<open>res.statusCode\<close> and \<^verbatim>\<open>body\<close>; \<open>None\<close> is a request that failed without a
  response, where \<^verbatim>\<open>res\<close> is undefined.
\<close>

datatype http_method = GET | POST

record request =
  verb :: http_method
  url :: jsval
  qs :: jsval
  form :: "props option"

record response =
  statusCode :: int
  body :: string

type_synonym transport = "request \<Rightarrow> response option"

section \<open>The client\<close>

record client =
  endpoint :: jsval
  format :: jsval
  jurisdiction :: jsval
  apiKey :: jsval
  discovery :: jsval

text \<open>
  What a call of a public operation does: the requests it issued, the invocations
  \<^verbatim>\<open>callback(error, result)\<close> it made, in order, the exception it ended with, if any,
  and the client afterwards. An omitted argument of the callback is \<^verbatim>\<open>undefined\<close>.
\<close>

type_synonym call = "jsval \<times> jsval"

record outcome =
  requests :: "request list"
  calls :: "call list"
  thrown :: "error option"
  client :: client

definition throws :: "client \<Rightarrow> error \<Rightarrow> outcome" where
  "throws c e = \<lparr>requests = [], calls = [], thrown = Some e, client = c\<rparr>"

definition endpoint_missing :: error where
  "endpoint_missing =
     ConfigError ''You must set set an endpoint URL in your Open311({endpoint: \"<URL>\"}) object''"

definition discovery_missing :: error where
  "discovery_missing =
     ConfigError ''You must set set a discovery URL in your Open311({discovery: \"URL\"}) object''"

definition apiKey_missing :: error where
  "apiKey_missing = ConfigError ''Submitting a Service Request requires an API Key''"

section \<open>The transport adapter\<close>

text \<open>
  \<^verbatim>\<open>params.jurisdiction_id = params.jurisdiction_id || this.jurisdiction\<close>, done when
  the client has a jurisdiction.
\<close>

definition with_jurisdiction :: "client \<Rightarrow> jsval \<Rightarrow> error + jsval" where
  "with_jurisdiction c params =
     (if js_truthy (jurisdiction c)
      then (case js_get params ''jurisdiction_id'' of
              Inl e \<Rightarrow> Inl e
            | Inr j \<Rightarrow> js_set params ''jurisdiction_id'' (if js_truthy j then j else jurisdiction c))
      else Inr params)"

definition request_url :: "host \<Rightarrow> client \<Rightarrow> string \<Rightarrow> jsval" where
  "request_url H c path =
     JStr (js_toString H (endpoint c) @ path @ ''.'' @ js_toString H (format c))"

text \<open>
  What running a callback of the module gives: the invocations of the caller's
  callback and the exception that ended it, if any.
\<close>

type_synonym handled = "call list \<times> error option"

text \<open>
  \<^verbatim>\<open>_get(path, params, callback)\<close> and \<^verbatim>\<open>_post(path, form, params, callback)\<close>, where
  \<open>k\<close> is the callback: the request issued, if one was, and what the response handler
  did. Without a response, \<^verbatim>\<open>res.statusCode\<close> is a \<^verbatim>\<open>TypeError\<close>.
\<close>

definition open311_get ::
  "host \<Rightarrow> transport \<Rightarrow> client \<Rightarrow> string \<Rightarrow> jsval \<Rightarrow> (jsval \<Rightarrow> string \<Rightarrow> handled) \<Rightarrow> request list \<times> handled"
where
  "open311_get H http c path params k =
     (case with_jurisdiction c params of
        Inl e \<Rightarrow> ([], ([], Some e))
      | Inr ps \<Rightarrow>
          let rq = \<lparr>verb = GET, url = request_url H c path, qs = ps, form = None\<rparr>
          in (case http rq of
                None \<Rightarrow> ([rq], ([], Some TypeError))
              | Some res \<Rightarrow>
                  if statusCode res \<noteq> 200
                  then ([rq], k (JBool True)
                          (''There was an error connecting to the Open311 API: ''
                           @ js_toString H (JNum (statusCode res))))
                  else ([rq], k (JBool False) (body res))))"

definition open311_post ::
  "host \<Rightarrow> transport \<Rightarrow> client \<Rightarrow> string \<Rightarrow> props \<Rightarrow> jsval \<Rightarrow> (jsval \<Rightarrow> string \<Rightarrow> handled)
     \<Rightarrow> request list \<times> handled"
where
  "open311_post H http c path frm params k =
     (case with_jurisdiction c params of
        Inl e \<Rightarrow> ([], ([], Some e))
      | Inr ps \<Rightarrow>
          let rq = \<lparr>verb = POST, url = request_url H c path, qs = ps, form = Some frm\<rparr>
          in (case http rq of
                None \<Rightarrow> ([rq], ([], Some TypeError))
              | Some res \<Rightarrow>
                  if statusCode res \<ge> 300
                  then ([rq], k (JNum (statusCode res))
                          (''There was an error connecting to the Open311 API: ''
                           @ js_toString H (JNum (statusCode res)) @ ''; '' @ body res))
                  else ([rq], k (JBool False) (body res))))"

definition finish :: "client \<Rightarrow> request list \<times> handled \<Rightarrow> outcome" where
  "finish c r = \<lparr>requests = fst r, calls = fst (snd r), thrown = snd (snd r), client = c\<rparr>"

section \<open>Decoding the responses\<close>

fun js_path :: "jsval \<Rightarrow> string list \<Rightarrow> error + jsval" where
  "js_path v [] = Inr v"
| "js_path v (k # ks) = (case js_get v k of Inl e \<Rightarrow> Inl e | Inr w \<Rightarrow> js_path w ks)"

text \<open>\<^verbatim>\<open>if (err) callback(err);\<close> in the callbacks given to the XML parser.\<close>

definition report :: "jsval \<Rightarrow> call list" where
  "report err = (if js_truthy err then [(err, JUndefined)] else [])"

text \<open>The callback \<^verbatim>\<open>serviceList\<close> gives to \<^verbatim>\<open>_get\<close>.\<close>

definition serviceList_handler :: "host \<Rightarrow> client \<Rightarrow> jsval \<Rightarrow> string \<Rightarrow> handled" where
  "serviceList_handler H c err bdy =
     (if js_truthy err then ([(err, JStr bdy)], None)
      else if format c = JStr ''xml''
      then (case xml_parse H bdy of
              (xerr, data) \<Rightarrow>
                (case js_path data [''services'', ''service''] of
                   Inl e \<Rightarrow> (report xerr, Some e)
                 | Inr d \<Rightarrow> (report xerr @ [(JNull, d)], None)))
      else (case json_parse H bdy of
              None \<Rightarrow> ([], Some SyntaxError)
            | Some data \<Rightarrow> ([(JNull, data)], None)))"

definition serviceList :: "host \<Rightarrow> transport \<Rightarrow> client \<Rightarrow> outcome" where
  "serviceList H http c =
     (if endpoint c = JUndefined then throws c endpoint_missing
      else finish c (open311_get H http c ''services'' (JObj []) (serviceList_handler H c)))"

text \<open>
  The callback of \<^verbatim>\<open>serviceDefinition\<close>: the XML branch replaces
  \<^verbatim>\<open>data.attributes\<close> by \<^verbatim>\<open>data.attributes.attribute\<close>.
\<close>

definition serviceDefinition_handler :: "host \<Rightarrow> client \<Rightarrow> jsval \<Rightarrow> string \<Rightarrow> handled" where
  "serviceDefinition_handler H c err bdy =
     (if js_truthy err then ([(err, JStr bdy)], None)
      else if format c = JStr ''xml''
      then (case xml_parse H bdy of
              (xerr, data) \<Rightarrow>
                (case js_get data ''service_definition'' of
                   Inl e \<Rightarrow> (report xerr, Some e)
                 | Inr d \<Rightarrow>
                     (case js_path d [''attributes'', ''attribute''] of
                        Inl e \<Rightarrow> (report xerr, Some e)
                      | Inr a \<Rightarrow>
                          (case js_set d ''attributes'' a of
                             Inl e \<Rightarrow> (report xerr, Some e)
                           | Inr d' \<Rightarrow> (report xerr @ [(JNull, d')], None)))))
      else (case json_parse H bdy of
              None \<Rightarrow> ([], Some SyntaxError)
            | Some data \<Rightarrow> ([(JNull, data)], None)))"

definition serviceDefinition :: "host \<Rightarrow> transport \<Rightarrow> client \<Rightarrow> jsval \<Rightarrow> outcome" where
  "serviceDefinition H http c service_code =
     (if endpoint c = JUndefined then throws c endpoint_missing
      else finish c (open311_get H http c (''services/'' @ js_toString H service_code) (JObj [])
                       (serviceDefinition_handler H c)))"

text \<open>The callback of \<^verbatim>\<open>token\<close>.\<close>

definition token_handler :: "host \<Rightarrow> client \<Rightarrow> jsval \<Rightarrow> string \<Rightarrow> handled" where
  "token_handler H c err bdy =
     (if js_truthy err then ([(err, JStr bdy)], None)
      else if format c = JStr ''xml''
      then (case xml_parse H bdy of
              (xerr, data) \<Rightarrow>
                (case js_path data [''service_requests'', ''request''] of
                   Inl e \<Rightarrow> (report xerr, Some e)
                 | Inr d \<Rightarrow> (report xerr @ [(JNull, d)], None)))
      else (case json_parse H bdy of
              None \<Rightarrow> ([], Some SyntaxError)
            | Some data \<Rightarrow> ([(JNull, data)], None)))"

definition token :: "host \<Rightarrow> transport \<Rightarrow> client \<Rightarrow> jsval \<Rightarrow> outcome" where
  "token H http c tok =
     (if endpoint c = JUndefined then throws c endpoint_missing
      else finish c (open311_get H http c (''tokens/'' @ js_toString H tok) (JObj [])
                       (token_handler H c)))"

section \<open>Service requests and their dates\<close>

text \<open>
  \<^verbatim>\<open>new Date(v)\<close>: a date keeps its time value, a string is parsed, a number is a time
  value when it is in the range of dates, and every other object goes through its
  string.
\<close>

fun new_Date :: "host \<Rightarrow> jsval \<Rightarrow> jsval" where
  "new_Date H (JDate t) = JDate t"
| "new_Date H (JStr s) = JDate (date_parse H s)"
| "new_Date H JUndefined = JDate None"
| "new_Date H JNull = JDate (Some 0)"
| "new_Date H (JBool b) = JDate (Some (if b then 1 else 0))"
| "new_Date H (JNum n) = JDate (if \<bar>n\<bar> \<le> 8640000000000000 then Some n else None)"
| "new_Date H v = JDate (date_parse H (to_string H v))"

text \<open>
  The body of the function \<^verbatim>\<open>_convertDates\<close> applies to each request, on the
  properties of an object. The second condition reads \<^verbatim>\<open>requested_datetime\<close>, as the
  source does.
\<close>

definition convert_props :: "host \<Rightarrow> props \<Rightarrow> props" where
  "convert_props H kvs =
     (let kvs1 = (if js_truthy (lookup kvs ''requested_datetime'')
                  then assign kvs ''requested_datetime''
                         (new_Date H (lookup kvs ''requested_datetime''))
                  else kvs);
          kvs2 = (if js_truthy (lookup kvs1 ''requested_datetime'')
                  then assign kvs1 ''updated_datetime''
                         (new_Date H (lookup kvs1 ''updated_datetime''))
                  else kvs1)
      in if js_truthy (lookup kvs2 ''expected_datetime'')
         then assign kvs2 ''expected_datetime''
                (new_Date H (lookup kvs2 ''expected_datetime''))
         else kvs2)"

text \<open>
  On \<^verbatim>\<open>null\<close> and \<^verbatim>\<open>undefined\<close> the first property read is a \<^verbatim>\<open>TypeError\<close>; on any
  other value that is not an object the three properties are \<^verbatim>\<open>undefined\<close>.
\<close>

fun convert_request :: "host \<Rightarrow> jsval \<Rightarrow> error + jsval" where
  "convert_request H JUndefined = Inl TypeError"
| "convert_request H JNull = Inl TypeError"
| "convert_request H (JObj kvs) = Inr (JObj (convert_props H kvs))"
| "convert_request H v = Inr v"

fun map_err :: "('a \<Rightarrow> error + 'b) \<Rightarrow> 'a list \<Rightarrow> error + 'b list" where
  "map_err f [] = Inr []"
| "map_err f (x # xs) =
     (case f x of
        Inl e \<Rightarrow> Inl e
      | Inr y \<Rightarrow> (case map_err f xs of Inl e \<Rightarrow> Inl e | Inr ys \<Rightarrow> Inr (y # ys)))"

text \<open>
  \<^verbatim>\<open>__.each\<close> visits the elements of an array and the property values of an object;
  on a string it visits one-character strings, which the body leaves alone, and on
  anything else it visits nothing.
\<close>

fun convertDates :: "host \<Rightarrow> jsval \<Rightarrow> error + jsval" where
  "convertDates H (JArr xs) =
     (case map_err (convert_request H) xs of Inl e \<Rightarrow> Inl e | Inr ys \<Rightarrow> Inr (JArr ys))"
| "convertDates H (JObj kvs) =
     (case map_err (convert_request H) (map snd kvs) of
        Inl e \<Rightarrow> Inl e
      | Inr ys \<Rightarrow> Inr (JObj (zip (map fst kvs) ys)))"
| "convertDates H v = Inr v"

text \<open>
  An actual argument of \<^verbatim>\<open>serviceRequests\<close>: the caller's callback or a value. An
  argument that is left out is \<^verbatim>\<open>Value JUndefined\<close>.
\<close>

datatype arg = Callback | Value jsval

text \<open>Calling what the variable \<^verbatim>\<open>callback\<close> holds, after the invocations \<open>cs\<close>.\<close>

definition invoke :: "arg \<Rightarrow> call list \<Rightarrow> call \<Rightarrow> handled" where
  "invoke cb cs cl = (if cb = Callback then (cs @ [cl], None) else (cs, Some TypeError))"

definition serviceRequests_handler :: "host \<Rightarrow> client \<Rightarrow> arg \<Rightarrow> jsval \<Rightarrow> string \<Rightarrow> handled" where
  "serviceRequests_handler H c cb err bdy =
     (if js_truthy err then invoke cb [] (err, JStr bdy)
      else if format c = JStr ''xml''
      then (case xml_parse H bdy of
              (xerr, data) \<Rightarrow>
                (case (if js_truthy xerr then invoke cb [] (xerr, JUndefined) else ([], None)) of
                   (cs, Some e) \<Rightarrow> (cs, Some e)
                 | (cs, None) \<Rightarrow>
                     (case js_path data [''service_requests'', ''request''] of
                        Inl e \<Rightarrow> (cs, Some e)
                      | Inr d \<Rightarrow>
                          (case convertDates H d of
                             Inl e \<Rightarrow> (cs, Some e)
                           | Inr d' \<Rightarrow> invoke cb cs (JNull, d')))))
      else (case json_parse H bdy of
              None \<Rightarrow> ([], Some SyntaxError)
            | Some data \<Rightarrow>
                (case convertDates H data of
                   Inl e \<Rightarrow> ([], Some e)
                 | Inr d' \<Rightarrow> invoke cb [] (JNull, d'))))"

text \<open>\<^verbatim>\<open>xs.join(',')\<close>: \<^verbatim>\<open>null\<close> and \<^verbatim>\<open>undefined\<close> elements are empty.\<close>

fun join_item :: "host \<Rightarrow> jsval \<Rightarrow> string" where
  "join_item H JUndefined = []"
| "join_item H JNull = []"
| "join_item H v = js_toString H v"

fun js_join :: "host \<Rightarrow> jsval list \<Rightarrow> string" where
  "js_join H [] = []"
| "js_join H [x] = join_item H x"
| "js_join H (x # xs) = join_item H x @ '','' @ js_join H xs"

fun array_items :: "jsval \<Rightarrow> jsval list" where
  "array_items (JArr xs) = xs"
| "array_items v = []"

text \<open>
  \<^verbatim>\<open>serviceRequests(serviceRequestId, params, callback)\<close> with its three actual
  arguments. A function is an object for \<^verbatim>\<open>__.isObject\<close>. The shallow clone of
  \<^verbatim>\<open>params\<close> is the same value.
\<close>

definition serviceRequests :: "host \<Rightarrow> transport \<Rightarrow> client \<Rightarrow> arg \<Rightarrow> arg \<Rightarrow> arg \<Rightarrow> outcome" where
  "serviceRequests H http c a1 a2 a3 =
     (if endpoint c = JUndefined then throws c endpoint_missing
      else
        let shifted = (case a1 of Callback \<Rightarrow> True | Value v \<Rightarrow> isObject v \<and> \<not> isArray v);
            callback1 = (if shifted then a2 else a3);
            params1 = (if shifted then a1 else a2);
            sid = (if shifted then JBool False else (case a1 of Callback \<Rightarrow> JBool False | Value v \<Rightarrow> v));
            callback2 = (if params1 = Callback then params1 else callback1);
            params2 = (case params1 of Callback \<Rightarrow> JObj [] | Value v \<Rightarrow> v);
            path = (if js_truthy sid \<and> \<not> isArray sid
                    then ''requests/'' @ js_toString H sid else ''requests'')
        in (case (if js_truthy sid \<and> isArray sid
                  then js_set params2 ''service_request_id'' (JStr (js_join H (array_items sid)))
                  else Inr params2) of
              Inl e \<Rightarrow> throws c e
            | Inr ps \<Rightarrow>
                finish c (open311_get H http c path ps (serviceRequests_handler H c callback2))))"

section \<open>Submitting a request\<close>

text \<open>
  The caller's data object is shared with the caller, so objects live in a heap: an
  address is an index into the list of the objects allocated so far, and an address
  outside the heap stands for an argument that is not an object. The values inside an
  object are part of it (the data is a tree).
\<close>

type_synonym heap = "props list"

text \<open>\<^verbatim>\<open>__.clone(data, true)\<close>: the deep clone is a new object with the same content.\<close>

definition clone :: "heap \<Rightarrow> nat \<Rightarrow> heap \<times> nat option" where
  "clone h a = (if a < length h then (h @ [h ! a], Some (length h)) else (h, None))"

definition heap_assign :: "heap \<Rightarrow> nat \<Rightarrow> string \<Rightarrow> jsval \<Rightarrow> heap" where
  "heap_assign h a k v = h[a := assign (h ! a) k v]"

definition heap_delete :: "heap \<Rightarrow> nat \<Rightarrow> string \<Rightarrow> heap" where
  "heap_delete h a k = h[a := delete (h ! a) k]"

text \<open>
  The names \<^verbatim>\<open>for (attribute in data.attributes)\<close> visits: the keys of an object, the
  indices of an array.
\<close>

fun attribute_names :: "host \<Rightarrow> jsval \<Rightarrow> string list" where
  "attribute_names H (JObj kvs) = map fst kvs"
| "attribute_names H (JArr xs) = map (\<lambda>i. js_toString H (JNum (int i))) [0..<length xs]"
| "attribute_names H v = []"

fun attribute_value :: "host \<Rightarrow> jsval \<Rightarrow> string \<Rightarrow> jsval" where
  "attribute_value H (JObj kvs) k = lookup kvs k"
| "attribute_value H (JArr xs) k =
     lookup (zip (map (\<lambda>i. js_toString H (JNum (int i))) [0..<length xs]) xs) k"
| "attribute_value H v k = JUndefined"

definition flatten_attributes :: "host \<Rightarrow> heap \<Rightarrow> nat \<Rightarrow> heap" where
  "flatten_attributes H h a =
     (let attributes = lookup (h ! a) ''attributes''
      in if isObject attributes
         then foldl (\<lambda>h' attribute.
                heap_assign h' a (''attribute['' @ attribute @ '']'')
                  (attribute_value H attributes attribute))
              h (attribute_names H attributes)
         else h)"

definition submitRequest_handler :: "host \<Rightarrow> client \<Rightarrow> jsval \<Rightarrow> string \<Rightarrow> handled" where
  "submitRequest_handler H c err bdy =
     (if js_truthy err then ([(err, JStr bdy)], None)
      else if format c = JStr ''xml''
      then (case xml_parse H bdy of
              (xerr, resData) \<Rightarrow>
                (case js_path resData [''service_requests'', ''request''] of
                   Inl e \<Rightarrow> ([], Some e)
                 | Inr d \<Rightarrow> ([(JNull, JArr [d])], None)))
      else (case json_parse H bdy of
              None \<Rightarrow> ([], Some SyntaxError)
            | Some resData \<Rightarrow> ([(JNull, resData)], None)))"

text \<open>
  \<^verbatim>\<open>submitRequest(data, callback)\<close> on the heap \<open>h\<close>, with \<open>data\<close> the address of the
  caller's object: the outcome and the heap afterwards.
\<close>

definition submitRequest :: "host \<Rightarrow> transport \<Rightarrow> client \<Rightarrow> heap \<Rightarrow> nat \<Rightarrow> outcome \<times> heap" where
  "submitRequest H http c h data =
     (if endpoint c = JUndefined then (throws c endpoint_missing, h)
      else
        (case clone h data of
           (h1, cloned) \<Rightarrow>
             if apiKey c = JUndefined then (throws c apiKey_missing, h1)
             else
               (case cloned of
                  None \<Rightarrow> (throws c TypeError, h1)
                | Some d \<Rightarrow>
                    let h2 = heap_assign h1 d ''api_key'' (apiKey c);
                        h3 = flatten_attributes H h2 d;
                        h4 = heap_delete h3 d ''attributes''
                    in (finish c (open311_post H http c ''requests'' (h4 ! d) (JObj [])
                                    (submitRequest_handler H c)), h4))))"

section \<open>Service discovery\<close>

text \<open>
  The options after \<^verbatim>\<open>__.extend(defaults, options)\<close>: \<open>cache\<close> is whether
  \<^verbatim>\<open>options.cache\<close> is truthy, \<open>index\<close> is an integer, \<open>otype\<close> and
  \<open>ospecification\<close> are \<^verbatim>\<open>options.type\<close> and \<^verbatim>\<open>options.specification\<close>.
\<close>

record options =
  cache :: bool
  otype :: jsval
  ospecification :: jsval
  index :: int

definition default_options :: options where
  "default_options = \<lparr>cache = False, otype = JStr ''production'',
                ospecification = JStr ''http://wiki.open311.org/GeoReport_v2'', index = 0\<rparr>"

text \<open>The predicate given to \<^verbatim>\<open>__.filter\<close>.\<close>

definition matches :: "options \<Rightarrow> jsval \<Rightarrow> error + bool" where
  "matches opts ep =
     (case js_get ep ''specification'' of
        Inl e \<Rightarrow> Inl e
      | Inr s \<Rightarrow>
          if js_strict_eq s (ospecification opts)
          then (case js_get ep ''type'' of
                  Inl e \<Rightarrow> Inl e
                | Inr t \<Rightarrow> Inr (js_strict_eq t (otype opts)))
          else Inr False)"

fun filter_err :: "('a \<Rightarrow> error + bool) \<Rightarrow> 'a list \<Rightarrow> error + 'a list" where
  "filter_err p [] = Inr []"
| "filter_err p (x # xs) =
     (case p x of
        Inl e \<Rightarrow> Inl e
      | Inr b \<Rightarrow>
          (case filter_err p xs of
             Inl e \<Rightarrow> Inl e
           | Inr ys \<Rightarrow> Inr (if b then x # ys else ys)))"

text \<open>
  What \<^verbatim>\<open>__.filter\<close> iterates over: the elements of an array, the property values of
  an object, the characters of a string, nothing otherwise.
\<close>

fun collection :: "jsval \<Rightarrow> jsval list" where
  "collection (JArr xs) = xs"
| "collection (JObj kvs) = map snd kvs"
| "collection (JStr s) = map (\<lambda>ch. JStr [ch]) s"
| "collection v = []"

text \<open>The candidates of a discovery document that match the options, in order.\<close>

definition filter_endpoints :: "options \<Rightarrow> jsval \<Rightarrow> error + jsval list" where
  "filter_endpoints opts responseData =
     (case js_get responseData ''endpoints'' of
        Inl e \<Rightarrow> Inl e
      | Inr eps \<Rightarrow> filter_err (matches opts) (collection eps))"

text \<open>\<^verbatim>\<open>endpoints[options.index]\<close>: \<^verbatim>\<open>undefined\<close> outside the array.\<close>

definition element_at :: "jsval list \<Rightarrow> int \<Rightarrow> jsval" where
  "element_at xs i = (if 0 \<le> i \<and> i < int (length xs) then xs ! nat i else JUndefined)"

text \<open>
  \<^verbatim>\<open>__.indexOf(array, value)\<close>: the first position of an element identical to the
  value, \<open>-1\<close> when there is none or when the first argument is not an array.
\<close>

fun index_from :: "int \<Rightarrow> jsval list \<Rightarrow> jsval \<Rightarrow> int" where
  "index_from i [] v = -1"
| "index_from i (x # xs) v = (if js_strict_eq x v then i else index_from (i + 1) xs v)"

fun indexOf :: "jsval \<Rightarrow> jsval \<Rightarrow> int" where
  "indexOf (JArr xs) v = index_from 0 xs v"
| "indexOf w v = -1"

text \<open>
  \<^verbatim>\<open>_cacheOptions\<close>: the client afterwards and the exception that ended it, if any;
  without one it has called its callback. The client's \<^verbatim>\<open>endpoint\<close> is assigned
  before \<^verbatim>\<open>slice\<close> is called on it, and only strings and arrays have a \<^verbatim>\<open>slice\<close>.
  The argument of \<^verbatim>\<open>__.indexOf\<close> is \<^verbatim>\<open>'application/json' !== -1\<close>, which is
  \<^verbatim>\<open>true\<close>.
\<close>

definition cacheOptions :: "host \<Rightarrow> client \<Rightarrow> jsval \<Rightarrow> options \<Rightarrow> client \<times> error option" where
  "cacheOptions H c responseData opts =
     (if \<not> cache opts then (c, None)
      else
        (case filter_endpoints opts responseData of
           Inl e \<Rightarrow> (c, Some e)
         | Inr endpoints \<Rightarrow>
             let ep = element_at endpoints (index opts)
             in (case js_get ep ''url'' of
                   Inl e \<Rightarrow> (c, Some e)
                 | Inr u \<Rightarrow>
                     (case (case u of
                              JStr s \<Rightarrow>
                                Inr (if s = [] \<or> last s \<noteq> CHR ''/'' then JStr (s @ ''/'') else JStr s)
                            | JArr xs \<Rightarrow> Inr (JStr (js_toString H u @ ''/''))
                            | _ \<Rightarrow> Inl TypeError) of
                        Inl e \<Rightarrow> (c\<lparr>endpoint := u\<rparr>, Some e)
                      | Inr u' \<Rightarrow>
                          (case js_get ep ''formats'' of
                             Inl e \<Rightarrow> (c\<lparr>endpoint := u'\<rparr>, Some e)
                           | Inr formats \<Rightarrow>
                               (c\<lparr>endpoint := u',
                                  format := (if indexOf formats (JBool True) \<noteq> 0
                                             then JStr ''json'' else JStr ''xml'')\<rparr>, None))))))"

text \<open>The last piece of \<^verbatim>\<open>self.discovery.split('.')\<close>.\<close>

definition last_piece :: "string \<Rightarrow> string" where
  "last_piece d = rev (takeWhile (\<lambda>ch. ch \<noteq> CHR ''.'') (rev d))"

definition discovered :: "request \<Rightarrow> call list \<Rightarrow> jsval \<Rightarrow> client \<times> error option \<Rightarrow> outcome" where
  "discovered rq cs data r =
     (case snd r of
        Some e \<Rightarrow> \<lparr>requests = [rq], calls = cs, thrown = Some e, client = fst r\<rparr>
      | None \<Rightarrow> \<lparr>requests = [rq], calls = cs @ [(JNull, data)], thrown = None, client = fst r\<rparr>)"

text \<open>
  \<^verbatim>\<open>serviceDiscovery(options, callback)\<close>. The request goes to the discovery URL as
  it is; only a string has a \<^verbatim>\<open>split\<close>.
\<close>

definition serviceDiscovery :: "host \<Rightarrow> transport \<Rightarrow> client \<Rightarrow> options \<Rightarrow> outcome" where
  "serviceDiscovery H http c opts =
     (if discovery c = JUndefined then throws c discovery_missing
      else
        (case url_extname H (discovery c) of
           Inl e \<Rightarrow> throws c e
         | Inr fmt \<Rightarrow>
             let rq = \<lparr>verb = GET, url = discovery c, qs = JUndefined, form = None\<rparr>
             in (case http rq of
                   None \<Rightarrow> \<lparr>requests = [rq], calls = [], thrown = Some TypeError, client = c\<rparr>
                 | Some res \<Rightarrow>
                     if statusCode res \<noteq> 200
                     then \<lparr>requests = [rq],
                           calls = [(JNum (statusCode res),
                                     JStr (''There was an error connecting to the Open311 Discovery API: ''
                                           @ js_toString H (JNum (statusCode res))))],
                           thrown = None, client = c\<rparr>
                     else
                       (case discovery c of
                          JStr d \<Rightarrow>
                            if last_piece d = ''xml''
                            then (case xml_parse H (body res) of
                                    (xerr, data) \<Rightarrow>
                                      discovered rq (report xerr) data (cacheOptions H c data opts))
                            else (case json_parse H (body res) of
                                    None \<Rightarrow> \<lparr>requests = [rq], calls = [], thrown = Some SyntaxError,
                                              client = c\<rparr>
                                  | Some data \<Rightarrow> discovered rq [] data (cacheOptions H c data opts))
                        | _ \<Rightarrow> \<lparr>requests = [rq], calls = [], thrown = Some TypeError, client = c\<rparr>))))"

section \<open>The XML parser\<close>

text \<open>
  An XML element without attributes: its name, its text and its child elements.
\<close>

datatype xml = Elem (name: string) (content: string) (children: "xml list")

text \<open>
  Modelled from the spec: the XML parser is the library \<^verbatim>\<open>xml2js\<close>, which is not part
  of the module; the module configures it with \<^verbatim>\<open>emptyTag: null\<close> and
  \<^verbatim>\<open>explicitArray: false\<close>. An empty element parses as \<^verbatim>\<open>null\<close> rather than an empty
  string, an element with text only as its text, and an element with children as an
  object with one property for each child name: the value of the child when one child
  has that name, the array of their values, in document order, when several have it.
\<close>

definition add_child :: "props \<Rightarrow> string \<times> jsval \<Rightarrow> props" where
  "add_child obj nv =
     (if fst nv \<notin> set (map fst obj) then assign obj (fst nv) (snd nv)
      else (case lookup obj (fst nv) of
              JArr vs \<Rightarrow> assign obj (fst nv) (JArr (vs @ [snd nv]))
            | w \<Rightarrow> assign obj (fst nv) (JArr [w, snd nv])))"

fun xml2js_value :: "xml \<Rightarrow> jsval" where
  "xml2js_value (Elem n txt cs) =
     (if cs = [] then (if txt = [] then JNull else JStr txt)
      else JObj (foldl add_child [] (map (\<lambda>c. (name c, xml2js_value c)) cs)))"

definition xml2js :: "xml \<Rightarrow> jsval" where
  "xml2js root = JObj [(name root, xml2js_value root)]"

section \<open>Example engine, transport and data\<close>

text \<open>
  A concrete engine for the examples. It prints integers in decimal, parses the bodies
  and dates of the examples and fails on every other text. A date is not printed in
  any example; \<open>sample_to_string\<close> gives it a placeholder.
\<close>

definition digit :: "nat \<Rightarrow> char" where
  "digit n = ''0123456789'' ! n"

function decimal :: "nat \<Rightarrow> string" where
  "decimal n = (if n < 10 then [digit n] else decimal (n div 10) @ [digit (n mod 10)])"
  by pat_completeness auto
termination
  by (relation "measure id") auto

fun sample_to_string :: "jsval \<Rightarrow> string" and sample_join :: "jsval list \<Rightarrow> string" where
  "sample_to_string JUndefined = ''undefined''"
| "sample_to_string JNull = ''null''"
| "sample_to_string (JBool b) = (if b then ''true'' else ''false'')"
| "sample_to_string (JNum n) = (if n < 0 then ''-'' @ decimal (nat (- n)) else decimal (nat n))"
| "sample_to_string (JStr s) = s"
| "sample_to_string (JDate t) = ''[object Date]''"
| "sample_to_string (JArr xs) = sample_join xs"
| "sample_to_string (JObj kvs) = ''[object Object]''"
| "sample_join [] = []"
| "sample_join (x # xs) =
     (if x = JUndefined \<or> x = JNull then [] else sample_to_string x)
     @ (if xs = [] then [] else '','' @ sample_join xs)"

definition service_001 :: xml where
  "service_001 =
     Elem ''service'' [] [Elem ''service_code'' ''001'' [], Elem ''service_name'' ''Pothole'' []]"

definition service_002 :: xml where
  "service_002 =
     Elem ''service'' [] [Elem ''service_code'' ''002'' [], Elem ''service_name'' ''Graffiti'' []]"

definition one_service_body :: string where
  "one_service_body =
     ''<services><service><service_code>001</service_code><service_name>Pothole</service_name></service></services>''"

definition two_services_body :: string where
  "two_services_body =
     ''<services><service><service_code>001</service_code><service_name>Pothole</service_name></service><service><service_code>002</service_code><service_name>Graffiti</service_name></service></services>''"

definition sample_xml_parse :: "string \<Rightarrow> jsval \<times> jsval" where
  "sample_xml_parse b =
     (if b = one_service_body then (JNull, xml2js (Elem ''services'' [] [service_001]))
      else if b = two_services_body
      then (JNull, xml2js (Elem ''services'' [] [service_001, service_002]))
      else (JObj [(''message'', JStr ''Non-whitespace before first tag.'')], JUndefined))"

definition geo_report_v2 :: jsval where
  "geo_report_v2 = JStr ''http://wiki.open311.org/GeoReport_v2''"

text \<open>A discovery document with one production and one test candidate.\<close>

definition discovery_document :: jsval where
  "discovery_document =
     JObj [(''changeset'', JStr ''2011-04-05T17:48:34Z''),
           (''endpoints'',
            JArr [JObj [(''specification'', geo_report_v2),
                        (''url'', JStr ''http://example.org/open311/v2''),
                        (''type'', JStr ''production''),
                        (''formats'', JArr [JStr ''text/xml''])],
                  JObj [(''specification'', geo_report_v2),
                        (''url'', JStr ''http://example.org/test/v2/''),
                        (''type'', JStr ''test''),
                        (''formats'', JArr [JStr ''text/xml'', JStr ''application/json''])]])]"

definition discovery_body :: string where
  "discovery_body =
     ''{\"changeset\":\"2011-04-05T17:48:34Z\",\"endpoints\":[{\"specification\":\"http://wiki.open311.org/GeoReport_v2\",\"url\":\"http://example.org/open311/v2\",\"type\":\"production\",\"formats\":[\"text/xml\"]},{\"specification\":\"http://wiki.open311.org/GeoReport_v2\",\"url\":\"http://example.org/test/v2/\",\"type\":\"test\",\"formats\":[\"text/xml\",\"application/json\"]}]}''"

definition requests_body :: string where
  "requests_body =
     ''[{\"service_request_id\":\"638344\",\"updated_datetime\":\"2011-04-01T00:00:00Z\"}]''"

definition created_body :: string where
  "created_body = ''[{\"service_request_id\":\"293944\"}]''"

definition services_body :: string where
  "services_body = ''[{\"service_code\":\"001\",\"service_name\":\"Pothole\"}]''"

definition sample_json_parse :: "string \<Rightarrow> jsval option" where
  "sample_json_parse b =
     (if b = discovery_body then Some discovery_document
      else if b = requests_body
      then Some (JArr [JObj [(''service_request_id'', JStr ''638344''),
                             (''updated_datetime'', JStr ''2011-04-01T00:00:00Z'')]])
      else if b = services_body
      then Some (JArr [JObj [(''service_code'', JStr ''001''), (''service_name'', JStr ''Pothole'')]])
      else if b = created_body
      then Some (JArr [JObj [(''service_request_id'', JStr ''293944'')]])
      else None)"

definition sample_date_parse :: "string \<Rightarrow> int option" where
  "sample_date_parse s = (if s = ''2011-04-01T00:00:00Z'' then Some 1301616000000 else None)"

definition sample_url_extname :: "jsval \<Rightarrow> error + string" where
  "sample_url_extname d =
     (case d of
        JStr s \<Rightarrow> Inr (if CHR ''.'' \<in> set s then rev (takeWhile (\<lambda>ch. ch \<noteq> CHR ''.'') (rev s)) else [])
      | _ \<Rightarrow> Inl TypeError)"

definition sample_host :: host where
  "sample_host =
     \<lparr>json_parse = sample_json_parse, xml_parse = sample_xml_parse,
      date_parse = sample_date_parse, to_string = sample_to_string,
      url_extname = sample_url_extname\<rparr>"

text \<open>A transport that answers every request with the same status and body.\<close>

definition respond :: "int \<Rightarrow> string \<Rightarrow> transport" where
  "respond status b rq = Some \<lparr>statusCode = status, body = b\<rparr>"

definition bare_client :: client where
  "bare_client =
     \<lparr>endpoint = JUndefined, format = JStr ''json'', jurisdiction = JUndefined,
      apiKey = JUndefined, discovery = JUndefined\<rparr>"

definition keyless_client :: client where
  "keyless_client = bare_client\<lparr>endpoint := JStr ''http://example.org/api/''\<rparr>"

definition discovery_client :: client where
  "discovery_client =
     bare_client\<lparr>endpoint := JStr ''http://old.example.org/api/'', format := JStr ''xml'',
                 discovery := JStr ''http://example.org/discovery.json''\<rparr>"

section \<open>Predicates of the properties\<close>

text \<open>
  A call that ended with a configuration error, issued no request and did not call the
  callback.
\<close>

definition config_failure :: "outcome \<Rightarrow> bool" where
  "config_failure r =
     (requests r = [] \<and> calls r = [] \<and>
      (case thrown r of Some (ConfigError m) \<Rightarrow> True | _ \<Rightarrow> False))"

definition keyed_client :: client where
  "keyed_client =
     bare_client\<lparr>endpoint := JStr ''http://example.org/api/'', apiKey := JStr ''SECRET''\<rparr>"

definition pothole_report :: props where
  "pothole_report =
     [(''service_code'', JStr ''001''),
      (''attributes'', JObj [(''A'', JStr ''1''), (''B'', JStr ''2'')])]"

text \<open>The message \<^verbatim>\<open>_post\<close> passes with a status of 300 or more.\<close>

definition post_error_message :: "host \<Rightarrow> response \<Rightarrow> string" where
  "post_error_message H res =
     ''There was an error connecting to the Open311 API: ''
     @ js_toString H (JNum (statusCode res)) @ ''; '' @ body res"

definition cached_options :: options where
  "cached_options = default_options\<lparr>cache := True\<rparr>"

text \<open>The request \<open>serviceDiscovery\<close> issues.\<close>

definition discovery_request :: "client \<Rightarrow> request" where
  "discovery_request c = \<lparr>verb = GET, url = discovery c, qs = JUndefined, form = None\<rparr>"

text \<open>A non-empty string that ends in a slash.\<close>

fun ends_with_slash :: "jsval \<Rightarrow> bool" where
  "ends_with_slash (JStr s) = (s \<noteq> [] \<and> last s = CHR ''/'')"
| "ends_with_slash v = False"

definition direct_client :: client where
  "direct_client = bare_client\<lparr>endpoint := JStr ''http://example.org/api''\<rparr>"

definition xml_client :: client where
  "xml_client = bare_client\<lparr>endpoint := JStr ''http://example.org/api/'', format := JStr ''xml''\<rparr>"

definition xml_discovery_client :: client where
  "xml_discovery_client =
     xml_client\<lparr>apiKey := JStr ''SECRET'', discovery := JStr ''http://example.org/discovery.xml''\<rparr>"

text \<open>
  A call of the callback with a null error and the result, or with an error and its
  message.
\<close>

definition error_or_result :: "call \<Rightarrow> bool" where
  "error_or_result cl = (fst cl = JNull \<or> (case snd cl of JStr msg \<Rightarrow> True | _ \<Rightarrow> False))"

text \<open>
  What the response handlers did when they are done: one such call of the callback and
  no exception, or an exception and no call.
\<close>

definition settled :: "handled \<Rightarrow> bool" where
  "settled r =
     (case snd r of
        None \<Rightarrow> (case fst r of [cl] \<Rightarrow> error_or_result cl | _ \<Rightarrow> False)
      | Some e \<Rightarrow> fst r = [])"



section \<open>Properties\<close>

subsection \<open>Configuration errors\<close>

lemma config_failure_throws: "config_failure (throws c (ConfigError m))"
  by (simp add: config_failure_def throws_def)

text \<open>
  C3. With the endpoint undefined, \<open>serviceList\<close>, \<open>serviceDefinition\<close>,
  \<open>submitRequest\<close>, \<open>token\<close> and \<open>serviceRequests\<close> end with a configuration error,
  and so do \<open>serviceDiscovery\<close> with the discovery URL undefined and \<open>submitRequest\<close>
  with the API key undefined: the error is raised before any request is issued, no
  request is made and the callback is not called.
\<close>

theorem configuration_error_before_request:
  "(endpoint c = JUndefined \<longrightarrow>
      config_failure (serviceList H http c) \<and>
      config_failure (serviceDefinition H http c code) \<and>
      config_failure (fst (submitRequest H http c h d)) \<and>
      config_failure (token H http c tok) \<and>
      config_failure (serviceRequests H http c a1 a2 a3)) \<and>
   (discovery c = JUndefined \<longrightarrow> config_failure (serviceDiscovery H http c opts)) \<and>
   (apiKey c = JUndefined \<longrightarrow> config_failure (fst (submitRequest H http c h d)))"
  by (simp add: serviceList_def serviceDefinition_def submitRequest_def token_def
      serviceRequests_def serviceDiscovery_def endpoint_missing_def discovery_missing_def
      apiKey_missing_def config_failure_throws split: prod.split)

theorem configuration_error_before_request_witness:
  "endpoint bare_client = JUndefined \<and> discovery bare_client = JUndefined \<and>
   config_failure (serviceList sample_host (respond 200 []) bare_client) \<and>
   config_failure (serviceDefinition sample_host (respond 200 []) bare_client (JStr ''001'')) \<and>
   config_failure (token sample_host (respond 200 []) bare_client (JStr ''12345'')) \<and>
   config_failure (serviceRequests sample_host (respond 200 []) bare_client Callback
                     (Value JUndefined) (Value JUndefined)) \<and>
   config_failure (serviceDiscovery sample_host (respond 200 []) bare_client default_options) \<and>
   endpoint keyless_client \<noteq> JUndefined \<and> apiKey keyless_client = JUndefined \<and>
   config_failure (fst (submitRequest sample_host (respond 200 []) keyless_client
                          [[(''service_code'', JStr ''001'')]] 0))"
  using configuration_error_before_request
          [of bare_client sample_host "respond 200 []" "JStr ''001''" "[]" 0 "JStr ''12345''"
              Callback "Value JUndefined" "Value JUndefined" default_options]
        configuration_error_before_request
          [of keyless_client sample_host "respond 200 []" JUndefined
              "[[(''service_code'', JStr ''001'')]]" 0 JUndefined
              Callback Callback Callback default_options]
  by (simp add: bare_client_def keyless_client_def)

subsection \<open>Discovery without caching\<close>

lemma client_discovered_uncached:
  "\<not> cache opts \<Longrightarrow> client (discovered rq cs data (cacheOptions H c data opts)) = c"
  by (simp add: discovered_def cacheOptions_def)

text \<open>
  C9. With \<open>cache\<close> false, as in the default options, \<open>serviceDiscovery\<close> leaves the
  client's endpoint and format as they were, whatever the transport and the parsers
  answer.
\<close>

theorem discovery_uncached_frame:
  "\<not> cache opts \<Longrightarrow>
     endpoint (client (serviceDiscovery H http c opts)) = endpoint c \<and>
     format (client (serviceDiscovery H http c opts)) = format c"
  by (simp add: serviceDiscovery_def throws_def client_discovered_uncached Let_def
      split: sum.split option.split jsval.split prod.split)

theorem discovery_uncached_frame_witness:
  "\<not> cache default_options \<and>
   calls (serviceDiscovery sample_host (respond 200 discovery_body) discovery_client default_options)
     = [(JNull, discovery_document)] \<and>
   endpoint (client (serviceDiscovery sample_host (respond 200 discovery_body) discovery_client
                       default_options)) = JStr ''http://old.example.org/api/'' \<and>
   format (client (serviceDiscovery sample_host (respond 200 discovery_body) discovery_client
                     default_options)) = JStr ''xml''"
proof -
  have "calls (serviceDiscovery sample_host (respond 200 discovery_body) discovery_client
                 default_options) = [(JNull, discovery_document)]"
    by (simp add: serviceDiscovery_def discovery_client_def bare_client_def sample_host_def
        sample_url_extname_def respond_def last_piece_def sample_json_parse_def
        discovered_def cacheOptions_def default_options_def)
  then show ?thesis
    using discovery_uncached_frame
            [of default_options sample_host "respond 200 discovery_body" discovery_client]
    by (simp add: default_options_def discovery_client_def bare_client_def)
qed

subsection \<open>The caller's data object\<close>

lemma length_heap_assign [simp]: "length (heap_assign h d k v) = length h"
  by (simp add: heap_assign_def)

lemma nth_heap_assign_other [simp]: "a \<noteq> d \<Longrightarrow> heap_assign h d k v ! a = h ! a"
  by (simp add: heap_assign_def)

lemma length_heap_delete [simp]: "length (heap_delete h d k) = length h"
  by (simp add: heap_delete_def)

lemma nth_heap_delete_other [simp]: "a \<noteq> d \<Longrightarrow> heap_delete h d k ! a = h ! a"
  by (simp add: heap_delete_def)

lemma foldl_heap_assign:
  "length (foldl (\<lambda>h' k. heap_assign h' d (f k) (g k)) h ks) = length h \<and>
   (a \<noteq> d \<longrightarrow> foldl (\<lambda>h' k. heap_assign h' d (f k) (g k)) h ks ! a = h ! a)"
  by (induction ks arbitrary: h) simp_all

lemma length_flatten_attributes [simp]: "length (flatten_attributes H h d) = length h"
  by (simp add: flatten_attributes_def Let_def foldl_heap_assign)

lemma nth_flatten_attributes_other [simp]:
  "a \<noteq> d \<Longrightarrow> flatten_attributes H h d ! a = h ! a"
  by (simp add: flatten_attributes_def Let_def foldl_heap_assign)

text \<open>
  C10. \<open>submitRequest\<close> leaves the caller's data object unchanged: the key
  \<open>api_key\<close>, the keys \<open>attribute[code]\<close> and the removal of \<open>attributes\<close> go
  to the clone, so every object that was in the heap before the call, the caller's
  among them, has the same properties after it.
\<close>

theorem submitRequest_preserves_data:
  "a < length h \<Longrightarrow>
     a < length (snd (submitRequest H http c h data)) \<and>
     snd (submitRequest H http c h data) ! a = h ! a"
  by (auto simp: submitRequest_def clone_def Let_def nth_append split: option.split)

theorem submitRequest_preserves_data_witness:
  "(0::nat) < length [pothole_report] \<and>
   snd (submitRequest sample_host (respond 201 created_body) keyed_client [pothole_report] 0) ! 0
     = pothole_report \<and>
   map form (requests (fst (submitRequest sample_host (respond 201 created_body) keyed_client
                              [pothole_report] 0)))
     = [Some [(''service_code'', JStr ''001''), (''api_key'', JStr ''SECRET''),
              (''attribute[A]'', JStr ''1''), (''attribute[B]'', JStr ''2'')]]"
proof -
  have "map form (requests (fst (submitRequest sample_host (respond 201 created_body) keyed_client
                              [pothole_report] 0)))
     = [Some [(''service_code'', JStr ''001''), (''api_key'', JStr ''SECRET''),
              (''attribute[A]'', JStr ''1''), (''attribute[B]'', JStr ''2'')]]"
    by (simp add: submitRequest_def clone_def keyed_client_def bare_client_def pothole_report_def
        heap_assign_def heap_delete_def flatten_attributes_def delete_def finish_def
        open311_post_def with_jurisdiction_def respond_def Let_def)
  then show ?thesis
    using submitRequest_preserves_data
            [of 0 "[pothole_report]" sample_host "respond 201 created_body" keyed_client 0]
    by simp
qed

subsection \<open>The status threshold of a POST\<close>

lemma with_jurisdiction_empty:
  "with_jurisdiction c (JObj []) =
     Inr (if js_truthy (jurisdiction c) then JObj [(''jurisdiction_id'', jurisdiction c)] else JObj [])"
  by (simp add: with_jurisdiction_def)

lemma open311_post_answered:
  assumes "with_jurisdiction c params = Inr ps"
    and "http \<lparr>verb = POST, url = request_url H c path, qs = ps, form = Some frm\<rparr> = Some res"
  shows "open311_post H http c path frm params k =
           ([\<lparr>verb = POST, url = request_url H c path, qs = ps, form = Some frm\<rparr>],
            if 300 \<le> statusCode res then k (JNum (statusCode res)) (post_error_message H res)
            else k (JBool False) (body res))"
  using assms by (simp add: open311_post_def Let_def post_error_message_def)

lemma open311_post_requests:
  "fst (open311_post H http c path frm (JObj []) k) =
     [\<lparr>verb = POST, url = request_url H c path,
       qs = (if js_truthy (jurisdiction c) then JObj [(''jurisdiction_id'', jurisdiction c)] else JObj []),
       form = Some frm\<rparr>]"
  by (simp add: open311_post_def with_jurisdiction_empty Let_def split: option.split)

lemma submitRequest_cases:
  "(\<exists>e. fst (submitRequest H http c h data) = throws c e) \<or>
   (\<exists>frm. fst (submitRequest H http c h data) =
       finish c (open311_post H http c ''requests'' frm (JObj []) (submitRequest_handler H c)))"
  by (auto simp: submitRequest_def clone_def Let_def)

lemma submitRequest_handler_error:
  "js_truthy err \<Longrightarrow> submitRequest_handler H c err b = ([(err, JStr b)], None)"
  by (simp add: submitRequest_handler_def)

text \<open>
  C8 (as the code has it). When \<open>submitRequest\<close> has issued its POST and the
  transport answers with a status of 300 or more, 302 among them, the callback is called
  once with the status code as its error and a message that holds the status and the
  body; nothing is thrown. With a status below 300 the response handler goes on to
  decode the body with a false error.
\<close>

theorem post_redirect_is_error:
  assumes rq: "requests (fst (submitRequest H http c h data)) = [rq]" and res: "http rq = Some res"
  shows "(300 \<le> statusCode res \<longrightarrow>
            calls (fst (submitRequest H http c h data))
              = [(JNum (statusCode res), JStr (post_error_message H res))] \<and>
            thrown (fst (submitRequest H http c h data)) = None) \<and>
         (statusCode res < 300 \<longrightarrow>
            (calls (fst (submitRequest H http c h data)), thrown (fst (submitRequest H http c h data)))
              = submitRequest_handler H c (JBool False) (body res))"
proof -
  let ?k = "submitRequest_handler H c"
  from submitRequest_cases [of H http c h data] rq
  obtain frm where out: "fst (submitRequest H http c h data) =
       finish c (open311_post H http c ''requests'' frm (JObj []) ?k)"
    by (auto simp: throws_def)
  let ?ps = "if js_truthy (jurisdiction c) then JObj [(''jurisdiction_id'', jurisdiction c)] else JObj []"
  have "rq = \<lparr>verb = POST, url = request_url H c ''requests'', qs = ?ps, form = Some frm\<rparr>"
    using rq unfolding out by (simp add: finish_def open311_post_requests)
  with res have "open311_post H http c ''requests'' frm (JObj []) ?k =
      ([rq], if 300 \<le> statusCode res then ?k (JNum (statusCode res)) (post_error_message H res)
             else ?k (JBool False) (body res))"
    using open311_post_answered [OF with_jurisdiction_empty, of http H c "''requests''" frm res ?k]
    by simp
  then show ?thesis
    unfolding out by (simp add: finish_def submitRequest_handler_error)
qed


lemma sample_to_string_302: "to_string sample_host (JNum 302) = ''302''"
  by (simp add: sample_host_def decimal.simps digit_def)

lemma redirected_request:
  "requests (fst (submitRequest sample_host (respond 302 ''Found'') keyed_client [pothole_report] 0))
     = [\<lparr>verb = POST, url = JStr ''http://example.org/api/requests.json'', qs = JObj [],
         form = Some [(''service_code'', JStr ''001''), (''api_key'', JStr ''SECRET''),
                      (''attribute[A]'', JStr ''1''), (''attribute[B]'', JStr ''2'')]\<rparr>]"
  by (simp add: submitRequest_def clone_def keyed_client_def bare_client_def pothole_report_def
        heap_assign_def heap_delete_def flatten_attributes_def delete_def finish_def
        open311_post_def with_jurisdiction_def respond_def Let_def request_url_def)

text \<open>
  A POST answered with status 302: the callback receives the error 302, which is truthy,
  and the error message, not the body.
\<close>

theorem post_302_not_success:
  "calls (fst (submitRequest sample_host (respond 302 ''Found'') keyed_client [pothole_report] 0))
     = [(JNum 302, JStr ''There was an error connecting to the Open311 API: 302; Found'')] \<and>
   js_truthy (JNum 302)"
  by (simp add: submitRequest_def clone_def keyed_client_def bare_client_def pothole_report_def
        heap_assign_def heap_delete_def flatten_attributes_def delete_def finish_def
        open311_post_def with_jurisdiction_def respond_def Let_def submitRequest_handler_def
        sample_to_string_302)

theorem post_redirect_is_error_witness:
  "requests (fst (submitRequest sample_host (respond 302 ''Found'') keyed_client [pothole_report] 0))
     = [\<lparr>verb = POST, url = JStr ''http://example.org/api/requests.json'', qs = JObj [],
         form = Some [(''service_code'', JStr ''001''), (''api_key'', JStr ''SECRET''),
                      (''attribute[A]'', JStr ''1''), (''attribute[B]'', JStr ''2'')]\<rparr>] \<and>
   (300::int) \<le> 302 \<and>
   calls (fst (submitRequest sample_host (respond 302 ''Found'') keyed_client [pothole_report] 0))
     = [(JNum 302, JStr (post_error_message sample_host \<lparr>statusCode = 302, body = ''Found''\<rparr>))] \<and>
   thrown (fst (submitRequest sample_host (respond 302 ''Found'') keyed_client [pothole_report] 0))
     = None"
proof -
  have rs: "respond 302 ''Found''
      \<lparr>verb = POST, url = JStr ''http://example.org/api/requests.json'', qs = JObj [],
         form = Some [(''service_code'', JStr ''001''), (''api_key'', JStr ''SECRET''),
                      (''attribute[A]'', JStr ''1''), (''attribute[B]'', JStr ''2'')]\<rparr>
     = Some \<lparr>statusCode = 302, body = ''Found''\<rparr>"
    by (simp add: respond_def)
  show ?thesis
    using post_redirect_is_error [OF redirected_request rs] redirected_request by simp
qed

subsection \<open>Selecting a candidate\<close>

lemma report_truthy: "cl \<in> set (report err) \<Longrightarrow> js_truthy (fst cl)"
  by (auto simp: report_def split: if_splits)

lemma cacheOptions_no_candidate:
  "cache opts \<Longrightarrow> filter_endpoints opts doc = Inr eps \<Longrightarrow> int (length eps) \<le> index opts \<Longrightarrow>
     cacheOptions H c doc opts = (c, Some TypeError)"
  by (simp add: cacheOptions_def element_at_def)

lemma serviceDiscovery_parsed:
  assumes "discovery c = JStr d" and "url_extname H (JStr d) = Inr fmt"
    and "http (discovery_request c) = Some res" and "statusCode res = 200"
    and "(last_piece d = ''xml'' \<and> snd (xml_parse H (body res)) = doc) \<or>
         (last_piece d \<noteq> ''xml'' \<and> json_parse H (body res) = Some doc)"
  shows "serviceDiscovery H http c opts =
           discovered (discovery_request c)
             (if last_piece d = ''xml'' then report (fst (xml_parse H (body res))) else [])
             doc (cacheOptions H c doc opts)"
  using assms
  by (auto simp: serviceDiscovery_def discovery_request_def Let_def split: prod.split)

text \<open>
  C5. When the discovery document has been fetched and parsed, \<open>cache\<close> is set and
  the requested index is at or beyond the number of candidates that match the
  specification and the type, \<open>serviceDiscovery\<close> ends with an error, the
  \<^verbatim>\<open>TypeError\<close> of reading the URL of a candidate that is not there: the client is
  left as it was, with no endpoint or format set, and the callback is not called with a
  result (the only call it can have received is the report of an XML parse error).
\<close>

theorem selection_error:
  assumes "cache opts" and "discovery c = JStr d" and "url_extname H (JStr d) = Inr fmt"
    and "http (discovery_request c) = Some res" and "statusCode res = 200"
    and "(last_piece d = ''xml'' \<and> snd (xml_parse H (body res)) = doc) \<or>
         (last_piece d \<noteq> ''xml'' \<and> json_parse H (body res) = Some doc)"
    and "filter_endpoints opts doc = Inr eps" and "int (length eps) \<le> index opts"
  shows "thrown (serviceDiscovery H http c opts) = Some TypeError \<and>
         client (serviceDiscovery H http c opts) = c \<and>
         (\<forall>cl \<in> set (calls (serviceDiscovery H http c opts)). js_truthy (fst cl))"
proof -
  have "serviceDiscovery H http c opts =
           discovered (discovery_request c)
             (if last_piece d = ''xml'' then report (fst (xml_parse H (body res))) else [])
             doc (cacheOptions H c doc opts)"
    using assms(2-6) by (rule serviceDiscovery_parsed)
  moreover have "cacheOptions H c doc opts = (c, Some TypeError)"
    using assms(1,7,8) by (rule cacheOptions_no_candidate)
  ultimately show ?thesis
    by (auto simp: discovered_def dest: report_truthy)
qed

lemma second_candidate_missing:
  "filter_endpoints (cached_options\<lparr>index := 1\<rparr>) discovery_document
     = Inr [JObj [(''specification'', geo_report_v2),
                  (''url'', JStr ''http://example.org/open311/v2''),
                  (''type'', JStr ''production''),
                  (''formats'', JArr [JStr ''text/xml''])]]"
  by (simp add: filter_endpoints_def discovery_document_def matches_def cached_options_def
      default_options_def geo_report_v2_def)

theorem selection_error_witness:
  "cache (cached_options\<lparr>index := 1\<rparr>) \<and>
   thrown (serviceDiscovery sample_host (respond 200 discovery_body) discovery_client
             (cached_options\<lparr>index := 1\<rparr>)) = Some TypeError \<and>
   client (serviceDiscovery sample_host (respond 200 discovery_body) discovery_client
             (cached_options\<lparr>index := 1\<rparr>)) = discovery_client \<and>
   calls (serviceDiscovery sample_host (respond 200 discovery_body) discovery_client
             (cached_options\<lparr>index := 1\<rparr>)) = []"
proof -
  have "calls (serviceDiscovery sample_host (respond 200 discovery_body) discovery_client
             (cached_options\<lparr>index := 1\<rparr>)) = []"
    by (simp add: serviceDiscovery_def discovery_client_def bare_client_def sample_host_def
        sample_url_extname_def respond_def last_piece_def sample_json_parse_def
        discovered_def cacheOptions_def second_candidate_missing element_at_def Let_def)
       (simp add: cached_options_def)
  then show ?thesis
    using selection_error [of "cached_options\<lparr>index := 1\<rparr>" discovery_client
                "''http://example.org/discovery.json''" sample_host "''json''"
                "respond 200 discovery_body" "\<lparr>statusCode = 200, body = discovery_body\<rparr>"
                discovery_document _ ]
          second_candidate_missing
    by (simp add: cached_options_def discovery_client_def bare_client_def sample_host_def
        sample_url_extname_def respond_def last_piece_def sample_json_parse_def)
qed

subsection \<open>The endpoint when a request is issued\<close>

lemma cacheOptions_success_slash:
  "cache opts \<Longrightarrow> snd (cacheOptions H c doc opts) = None \<Longrightarrow>
     ends_with_slash (endpoint (fst (cacheOptions H c doc opts)))"
  by (auto simp: cacheOptions_def Let_def split: sum.splits jsval.splits if_splits)

lemma discovered_success:
  "\<forall>cl \<in> set cs. js_truthy (fst cl) \<Longrightarrow>
   (JNull, doc) \<in> set (calls (discovered rq cs data r)) \<Longrightarrow>
     snd r = None \<and> client (discovered rq cs data r) = fst r"
  by (auto simp: discovered_def split: option.splits)

lemma serviceDiscovery_shape:
  "(\<forall>cl \<in> set (calls (serviceDiscovery H http c opts)). fst cl \<noteq> JNull) \<or>
   (\<exists>rq cs data. (\<forall>cl \<in> set cs. js_truthy (fst cl)) \<and>
       serviceDiscovery H http c opts = discovered rq cs data (cacheOptions H c data opts))"
proof (cases "\<exists>d fmt res. discovery c = JStr d \<and> url_extname H (JStr d) = Inr fmt \<and>
                http (discovery_request c) = Some res \<and> statusCode res = 200 \<and>
                (last_piece d \<noteq> ''xml'' \<longrightarrow> json_parse H (body res) \<noteq> None)")
  case True
  then obtain d fmt res where h: "discovery c = JStr d" "url_extname H (JStr d) = Inr fmt"
      "http (discovery_request c) = Some res" "statusCode res = 200"
      "last_piece d \<noteq> ''xml'' \<longrightarrow> json_parse H (body res) \<noteq> None"
    by blast
  define doc where "doc = (if last_piece d = ''xml'' then snd (xml_parse H (body res))
                           else the (json_parse H (body res)))"
  have "(last_piece d = ''xml'' \<and> snd (xml_parse H (body res)) = doc) \<or>
        (last_piece d \<noteq> ''xml'' \<and> json_parse H (body res) = Some doc)"
    using h(5) by (auto simp: doc_def)
  with h(1-4) have "serviceDiscovery H http c opts =
           discovered (discovery_request c)
             (if last_piece d = ''xml'' then report (fst (xml_parse H (body res))) else [])
             doc (cacheOptions H c doc opts)"
    by (rule serviceDiscovery_parsed)
  then have "\<exists>rq cs data. (\<forall>cl \<in> set cs. js_truthy (fst cl)) \<and>
       serviceDiscovery H http c opts = discovered rq cs data (cacheOptions H c data opts)"
    by (intro exI [of _ "discovery_request c"]
          exI [of _ "if last_piece d = ''xml'' then report (fst (xml_parse H (body res))) else []"]
          exI [of _ doc]) (auto dest: report_truthy)
  then show ?thesis ..
next
  case False
  then have "\<forall>cl \<in> set (calls (serviceDiscovery H http c opts)). fst cl \<noteq> JNull"
    by (auto simp: serviceDiscovery_def throws_def Let_def discovery_request_def
        split: sum.splits option.splits jsval.splits prod.splits if_splits)
  then show ?thesis ..
qed

lemma open311_get_url:
  "rq \<in> set (fst (open311_get H http c path params k)) \<Longrightarrow>
     url rq = JStr (js_toString H (endpoint c) @ path @ ''.'' @ js_toString H (format c))"
  by (auto simp: open311_get_def request_url_def Let_def split: sum.splits option.splits if_splits)

lemma open311_post_url:
  "rq \<in> set (fst (open311_post H http c path frm params k)) \<Longrightarrow>
     url rq = JStr (js_toString H (endpoint c) @ path @ ''.'' @ js_toString H (format c))"
  by (auto simp: open311_post_def request_url_def Let_def split: sum.splits option.splits if_splits)

lemma serviceList_request:
  "rq \<in> set (requests (serviceList H http c)) \<Longrightarrow>
     endpoint c \<noteq> JUndefined \<and>
     url rq = JStr (js_toString H (endpoint c) @ ''services'' @ ''.'' @ js_toString H (format c))"
  by (auto simp: serviceList_def throws_def finish_def dest: open311_get_url split: if_splits)

lemma serviceDefinition_request:
  "rq \<in> set (requests (serviceDefinition H http c code)) \<Longrightarrow>
     endpoint c \<noteq> JUndefined \<and>
     url rq = JStr (js_toString H (endpoint c) @ (''services/'' @ js_toString H code) @ ''.''
                    @ js_toString H (format c))"
  by (auto simp: serviceDefinition_def throws_def finish_def dest: open311_get_url split: if_splits)

lemma token_request:
  "rq \<in> set (requests (token H http c tok)) \<Longrightarrow>
     endpoint c \<noteq> JUndefined \<and>
     url rq = JStr (js_toString H (endpoint c) @ (''tokens/'' @ js_toString H tok) @ ''.''
                    @ js_toString H (format c))"
  by (auto simp: token_def throws_def finish_def dest: open311_get_url split: if_splits)

lemma submitRequest_request:
  "rq \<in> set (requests (fst (submitRequest H http c h d))) \<Longrightarrow>
     endpoint c \<noteq> JUndefined \<and>
     url rq = JStr (js_toString H (endpoint c) @ ''requests'' @ ''.'' @ js_toString H (format c))"
  by (auto simp: submitRequest_def throws_def finish_def Let_def dest: open311_post_url
      split: if_splits option.splits prod.splits)

lemma array_is_object: "isArray v \<Longrightarrow> isObject v"
  by (cases v) simp_all

lemma serviceRequests_request:
  "rq \<in> set (requests (serviceRequests H http c a1 a2 a3)) \<Longrightarrow>
     endpoint c \<noteq> JUndefined \<and>
     url rq = JStr (js_toString H (endpoint c)
                    @ (case a1 of
                         Callback \<Rightarrow> ''requests''
                       | Value v \<Rightarrow> if js_truthy v \<and> \<not> isObject v
                                   then ''requests/'' @ js_toString H v else ''requests'')
                    @ ''.'' @ js_toString H (format c))"
  by (cases a1)
     (auto simp: serviceRequests_def throws_def finish_def Let_def
      dest!: open311_get_url array_is_object split: if_splits sum.splits)


text \<open>
  C4 (as the code has it). An endpoint that \<open>serviceDiscovery\<close> has cached, that is
  when \<open>cache\<close> is set and the callback has received the document, is a non-empty
  string that ends in a slash. Whenever one of the five operations issues a request, the
  client's endpoint is defined and the URL is exactly the endpoint as it stands, followed
  by the path of the operation, a dot and the format: an endpoint the caller supplied is
  used as given, and no slash is added to it.
\<close>

theorem endpoint_at_transport_call:
  "(cache opts \<and> (JNull, doc) \<in> set (calls (serviceDiscovery H http c opts)) \<longrightarrow>
      ends_with_slash (endpoint (client (serviceDiscovery H http c opts)))) \<and>
   (rq \<in> set (requests (serviceList H http' c')) \<longrightarrow>
      endpoint c' \<noteq> JUndefined \<and>
      url rq = JStr (js_toString H (endpoint c') @ ''services'' @ ''.''
                     @ js_toString H (format c'))) \<and>
   (rq \<in> set (requests (serviceDefinition H http' c' code)) \<longrightarrow>
      endpoint c' \<noteq> JUndefined \<and>
      url rq = JStr (js_toString H (endpoint c') @ (''services/'' @ js_toString H code) @ ''.''
                     @ js_toString H (format c'))) \<and>
   (rq \<in> set (requests (fst (submitRequest H http' c' h d))) \<longrightarrow>
      endpoint c' \<noteq> JUndefined \<and>
      url rq = JStr (js_toString H (endpoint c') @ ''requests'' @ ''.''
                     @ js_toString H (format c'))) \<and>
   (rq \<in> set (requests (token H http' c' tok)) \<longrightarrow>
      endpoint c' \<noteq> JUndefined \<and>
      url rq = JStr (js_toString H (endpoint c') @ (''tokens/'' @ js_toString H tok) @ ''.''
                     @ js_toString H (format c'))) \<and>
   (rq \<in> set (requests (serviceRequests H http' c' a1 a2 a3)) \<longrightarrow>
      endpoint c' \<noteq> JUndefined \<and>
      url rq = JStr (js_toString H (endpoint c')
                     @ (case a1 of
                          Callback \<Rightarrow> ''requests''
                        | Value v \<Rightarrow> if js_truthy v \<and> \<not> isObject v
                                    then ''requests/'' @ js_toString H v else ''requests'')
                     @ ''.'' @ js_toString H (format c')))"
proof (intro conjI impI)
  assume a: "cache opts \<and> (JNull, doc) \<in> set (calls (serviceDiscovery H http c opts))"
  with serviceDiscovery_shape [of H http c opts]
  obtain rq' cs data where cs: "\<forall>cl \<in> set cs. js_truthy (fst cl)"
      and sd: "serviceDiscovery H http c opts = discovered rq' cs data (cacheOptions H c data opts)"
    by force
  from discovered_success [OF cs, of doc rq' data "cacheOptions H c data opts"] a sd
  have "snd (cacheOptions H c data opts) = None"
    and "client (serviceDiscovery H http c opts) = fst (cacheOptions H c data opts)"
    by simp_all
  with a show "ends_with_slash (endpoint (client (serviceDiscovery H http c opts)))"
    by (simp add: cacheOptions_success_slash)
qed (simp_all add: serviceList_request serviceDefinition_request submitRequest_request
       token_request serviceRequests_request del: append.simps append_assoc)

lemma direct_request:
  "requests (serviceList sample_host (respond 200 services_body) direct_client)
     = [\<lparr>verb = GET, url = JStr ''http://example.org/apiservices.json'', qs = JObj [],
         form = None\<rparr>]"
  by (simp add: serviceList_def direct_client_def bare_client_def finish_def open311_get_def
      with_jurisdiction_def request_url_def respond_def Let_def)

text \<open>
  A client constructed with an endpoint that has no trailing slash: \<open>serviceList\<close>
  issues its request all the same, to a URL in which the endpoint runs into the path.
\<close>

theorem request_without_trailing_slash:
  "requests (serviceList sample_host (respond 200 services_body) direct_client)
     = [\<lparr>verb = GET, url = JStr ''http://example.org/apiservices.json'', qs = JObj [],
         form = None\<rparr>] \<and>
   endpoint direct_client = JStr ''http://example.org/api'' \<and>
   \<not> ends_with_slash (endpoint direct_client)"
  by (simp add: direct_request) (simp add: direct_client_def)

lemma cached_discovery:
  "serviceDiscovery sample_host (respond 200 discovery_body) discovery_client cached_options
     = \<lparr>requests = [discovery_request discovery_client], calls = [(JNull, discovery_document)],
        thrown = None,
        client = discovery_client\<lparr>endpoint := JStr ''http://example.org/open311/v2/'',
                                  format := JStr ''json''\<rparr>\<rparr>"
  by (simp add: serviceDiscovery_def discovery_client_def bare_client_def sample_host_def
        sample_url_extname_def respond_def last_piece_def sample_json_parse_def
        discovered_def cacheOptions_def filter_endpoints_def matches_def element_at_def Let_def
        discovery_request_def cached_options_def default_options_def geo_report_v2_def
        discovery_document_def)

lemma direct_requests_by_id:
  "requests (serviceRequests sample_host (respond 200 requests_body) direct_client
               (Value (JStr ''638344'')) Callback (Value JUndefined))
     = [\<lparr>verb = GET, url = JStr ''http://example.org/apirequests/638344.json'', qs = JObj [],
         form = None\<rparr>]"
  by (simp add: serviceRequests_def direct_client_def bare_client_def finish_def open311_get_def
      with_jurisdiction_def request_url_def respond_def Let_def)

theorem endpoint_at_transport_call_witness:
  "cache cached_options \<and>
   (JNull, discovery_document)
     \<in> set (calls (serviceDiscovery sample_host (respond 200 discovery_body) discovery_client
                     cached_options)) \<and>
   ends_with_slash (endpoint (client (serviceDiscovery sample_host (respond 200 discovery_body)
                                        discovery_client cached_options))) \<and>
   \<lparr>verb = GET, url = JStr ''http://example.org/apiservices.json'', qs = JObj [], form = None\<rparr>
     \<in> set (requests (serviceList sample_host (respond 200 services_body) direct_client)) \<and>
   endpoint direct_client \<noteq> JUndefined \<and>
   JStr ''http://example.org/apiservices.json''
     = JStr (js_toString sample_host (endpoint direct_client) @ ''services'' @ ''.''
             @ js_toString sample_host (format direct_client)) \<and>
   \<lparr>verb = GET, url = JStr ''http://example.org/apirequests/638344.json'', qs = JObj [],
     form = None\<rparr>
     \<in> set (requests (serviceRequests sample_host (respond 200 requests_body) direct_client
                         (Value (JStr ''638344'')) Callback (Value JUndefined))) \<and>
   JStr ''http://example.org/apirequests/638344.json''
     = JStr (js_toString sample_host (endpoint direct_client) @ (''requests/'' @ ''638344'')
             @ ''.'' @ js_toString sample_host (format direct_client))"
  using endpoint_at_transport_call [where opts = cached_options and doc = discovery_document
              and H = sample_host and http = "respond 200 discovery_body" and c = discovery_client
              and rq = "\<lparr>verb = GET, url = JStr ''http://example.org/apiservices.json'',
                         qs = JObj [], form = None\<rparr>"
              and http' = "respond 200 services_body" and c' = direct_client]
        endpoint_at_transport_call [where H = sample_host
              and rq = "\<lparr>verb = GET, url = JStr ''http://example.org/apirequests/638344.json'',
                         qs = JObj [], form = None\<rparr>"
              and http' = "respond 200 requests_body" and c' = direct_client
              and ?a1.0 = "Value (JStr ''638344'')" and ?a2.0 = Callback
              and ?a3.0 = "Value JUndefined"]
  by (simp add: cached_discovery direct_request direct_requests_by_id)
     (simp add: cached_options_def)

subsection \<open>The format chosen by discovery\<close>

text \<open>
  C1 fails on the code. The production candidate of the example document advertises
  \<^verbatim>\<open>text/xml\<close> only, so its formats do not contain \<^verbatim>\<open>application/json\<close>, and
  \<open>serviceDiscovery\<close> with \<open>cache\<close> set leaves the client's format at
  \<^verbatim>\<open>json\<close>: the source searches the formats for \<^verbatim>\<open>true\<close>, the value of
  \<^verbatim>\<open>'application/json' !== -1\<close>, and takes the result \<open>-1\<close> as truthy.
\<close>

theorem format_json_without_json_mime:
  "js_get (element_at [JObj [(''specification'', geo_report_v2),
                             (''url'', JStr ''http://example.org/open311/v2''),
                             (''type'', JStr ''production''),
                             (''formats'', JArr [JStr ''text/xml''])]] 0) ''formats''
     = Inr (JArr [JStr ''text/xml'']) \<and>
   indexOf (JArr [JStr ''text/xml'']) (JStr ''application/json'') = -1 \<and>
   format (client (serviceDiscovery sample_host (respond 200 discovery_body) discovery_client
                     cached_options)) = JStr ''json''"
  by (simp add: cached_discovery element_at_def)

subsection \<open>The shape of an XML service list\<close>

lemma xml2js_value_not_array: "\<not> isArray (xml2js_value x)"
  by (cases x) simp

lemma add_child_first: "add_child [] (n, v) = [(n, v)]"
  by (simp add: add_child_def)

lemma add_child_second: "\<not> isArray v \<Longrightarrow> add_child [(n, v)] (n, w) = [(n, JArr [v, w])]"
  by (cases v) (simp_all add: add_child_def)

lemma add_child_more: "add_child [(n, JArr vs)] (n, w) = [(n, JArr (vs @ [w]))]"
  by (simp add: add_child_def)

lemma foldl_add_child_array:
  "foldl add_child [(n, JArr vs)] (map (\<lambda>c. (n, f c)) cs) = [(n, JArr (vs @ map f cs))]"
  by (induction cs arbitrary: vs) (simp_all add: add_child_more)

lemma same_name_children:
  assumes "\<forall>s \<in> set svcs. name s = n"
  shows "map (\<lambda>c. (name c, xml2js_value c)) svcs = map (\<lambda>c. (n, xml2js_value c)) svcs"
  using assms by simp

lemma services_one:
  "name s = n \<Longrightarrow> xml2js_value (Elem r txt [s]) = JObj [(n, xml2js_value s)]"
  by (simp add: add_child_first)

lemma services_several:
  assumes "\<forall>s \<in> set svcs. name s = n" and "2 \<le> length svcs"
  shows "xml2js_value (Elem r txt svcs) = JObj [(n, JArr (map xml2js_value svcs))]"
proof -
  from assms(2) obtain s1 s2 rest where svcs: "svcs = s1 # s2 # rest"
    by (cases svcs; cases "tl svcs") auto
  have "foldl add_child [] (map (\<lambda>c. (n, xml2js_value c)) svcs)
          = [(n, JArr (map xml2js_value svcs))]"
    by (simp add: svcs add_child_first add_child_second xml2js_value_not_array
        foldl_add_child_array)
  moreover have "svcs \<noteq> []"
    by (simp add: svcs)
  ultimately show ?thesis
    by (simp only: xml2js_value.simps same_name_children [OF assms(1)] if_False)
qed

text \<open>
  C6 (as the code has it). When the XML parser has parsed a service list whose root holds
  \<^verbatim>\<open>service\<close> elements only, \<open>serviceList\<close> hands the callback what the parser put
  under \<^verbatim>\<open>services.service\<close>: with exactly one element the value of that service
  itself, which is not a sequence, and with two or more the sequence of their values in
  document order.
\<close>

theorem service_list_cardinality:
  assumes "format c = JStr ''xml''"
    and "xml_parse H b = (JNull, xml2js (Elem ''services'' txt svcs))"
    and "\<forall>s \<in> set svcs. name s = ''service''"
  shows "(length svcs = 1 \<longrightarrow>
            serviceList_handler H c (JBool False) b = ([(JNull, xml2js_value (hd svcs))], None) \<and>
            \<not> isArray (xml2js_value (hd svcs))) \<and>
         (2 \<le> length svcs \<longrightarrow>
            serviceList_handler H c (JBool False) b = ([(JNull, JArr (map xml2js_value svcs))], None))"
proof (intro conjI impI)
  assume "length svcs = 1"
  then obtain s where s: "svcs = [s]" by (cases svcs) auto
  with assms(3) have "xml2js_value (Elem ''services'' txt svcs) = JObj [(''service'', xml2js_value s)]"
    by (simp add: services_one del: xml2js_value.simps)
  with assms(1,2) s
  show "serviceList_handler H c (JBool False) b = ([(JNull, xml2js_value (hd svcs))], None)"
    by (simp add: serviceList_handler_def xml2js_def report_def del: xml2js_value.simps)
  show "\<not> isArray (xml2js_value (hd svcs))" by (rule xml2js_value_not_array)
next
  assume "2 \<le> length svcs"
  with assms(3) have "xml2js_value (Elem ''services'' txt svcs)
      = JObj [(''service'', JArr (map xml2js_value svcs))]"
    by (rule services_several)
  with assms(1,2)
  show "serviceList_handler H c (JBool False) b = ([(JNull, JArr (map xml2js_value svcs))], None)"
    by (simp add: serviceList_handler_def xml2js_def report_def del: xml2js_value.simps)
qed

lemma parse_one_service:
  "xml_parse sample_host one_service_body = (JNull, xml2js (Elem ''services'' [] [service_001]))"
  by (simp add: sample_host_def sample_xml_parse_def)

lemma parse_two_services:
  "xml_parse sample_host two_services_body
     = (JNull, xml2js (Elem ''services'' [] [service_001, service_002]))"
  by (simp add: sample_host_def sample_xml_parse_def)
     (simp add: one_service_body_def two_services_body_def)

lemma service_names:
  "\<forall>s \<in> set [service_001]. name s = ''service''"
  "\<forall>s \<in> set [service_001, service_002]. name s = ''service''"
  by (simp_all add: service_001_def service_002_def)

theorem service_list_cardinality_witness:
  "format xml_client = JStr ''xml'' \<and>
   length [service_001] = 1 \<and>
   serviceList_handler sample_host xml_client (JBool False) one_service_body
     = ([(JNull, xml2js_value service_001)], None) \<and>
   2 \<le> length [service_001, service_002] \<and>
   serviceList_handler sample_host xml_client (JBool False) two_services_body
     = ([(JNull, JArr [xml2js_value service_001, xml2js_value service_002])], None)"
proof -
  have f: "format xml_client = JStr ''xml''"
    by (simp add: xml_client_def bare_client_def)
  show ?thesis
    using service_list_cardinality [OF f parse_one_service service_names(1)]
          service_list_cardinality [OF f parse_two_services service_names(2)] f
    by simp
qed

text \<open>
  A body with exactly one \<^verbatim>\<open>service\<close> element: the callback receives the service
  object, not a one-element sequence.
\<close>

theorem single_service_not_sequence:
  "calls (serviceList sample_host (respond 200 one_service_body) xml_client)
     = [(JNull, JObj [(''service_code'', JStr ''001''), (''service_name'', JStr ''Pothole'')])] \<and>
   \<not> isArray (JObj [(''service_code'', JStr ''001''), (''service_name'', JStr ''Pothole'')])"
  by (simp add: serviceList_def xml_client_def bare_client_def finish_def open311_get_def
      with_jurisdiction_def respond_def Let_def serviceList_handler_def parse_one_service
      xml2js_def service_001_def add_child_def report_def)

subsection \<open>Invocations of the callback\<close>



lemma settled_simps [simp]:
  "settled ([(JNull, r)], None)" "settled ([(err, JStr msg)], None)" "settled ([], Some e)"
  by (simp_all add: settled_def error_or_result_def)
























lemma parse_not_found:
  "xml_parse sample_host ''Not Found''
     = (JObj [(''message'', JStr ''Non-whitespace before first tag.'')], JUndefined)"
  "json_parse sample_host ''Not Found'' = None"
  by (simp_all add: sample_host_def sample_xml_parse_def sample_json_parse_def
      one_service_body_def two_services_body_def discovery_body_def requests_body_def
      services_body_def created_body_def)


text \<open>
  A body the XML parser rejects, on a discovery URL that ends in \<^verbatim>\<open>.xml\<close>: the callback
  is called with the parser's error and then, the handler going on, a second time with
  a null error.
\<close>

lemma extname_discovery_xml:
  "url_extname sample_host (JStr ''http://example.org/discovery.xml'') = Inr ''xml''"
  by (simp add: sample_host_def sample_url_extname_def)

lemma xml_parse_error_then_result:
  "calls (serviceDiscovery sample_host (respond 200 ''Not Found'') xml_discovery_client
            default_options)
     = [(JObj [(''message'', JStr ''Non-whitespace before first tag.'')], JUndefined),
        (JNull, JUndefined)]"
  by (simp add: serviceDiscovery_def xml_discovery_client_def xml_client_def bare_client_def
      respond_def last_piece_def parse_not_found discovered_def cacheOptions_def
      default_options_def report_def Let_def extname_discovery_xml)



subsection \<open>The dates of service requests\<close>

lemma parse_requests_body:
  "json_parse sample_host requests_body
     = Some (JArr [JObj [(''service_request_id'', JStr ''638344''),
                         (''updated_datetime'', JStr ''2011-04-01T00:00:00Z'')]])"
  by (simp add: sample_host_def sample_json_parse_def)
     (simp add: requests_body_def discovery_body_def)

text \<open>
  C7 fails on the code. A request with \<^verbatim>\<open>updated_datetime\<close> present as a string and no
  \<^verbatim>\<open>requested_datetime\<close> keeps the string, and a request with a
  \<^verbatim>\<open>requested_datetime\<close> and no \<^verbatim>\<open>updated_datetime\<close> gains an \<^verbatim>\<open>updated_datetime\<close>
  that is the invalid date: the condition of the second conversion reads
  \<^verbatim>\<open>requested_datetime\<close>.
\<close>

theorem updated_datetime_follows_requested:
  "calls (serviceRequests sample_host (respond 200 requests_body) keyed_client
            Callback (Value JUndefined) (Value JUndefined))
     = [(JNull, JArr [JObj [(''service_request_id'', JStr ''638344''),
                            (''updated_datetime'', JStr ''2011-04-01T00:00:00Z'')]])] \<and>
   convertDates sample_host (JArr [JObj [(''requested_datetime'', JStr ''2011-04-01T00:00:00Z'')]])
     = Inr (JArr [JObj [(''requested_datetime'', JDate (Some 1301616000000)),
                        (''updated_datetime'', JDate None)]])"
  by (simp add: serviceRequests_def keyed_client_def bare_client_def finish_def open311_get_def
      with_jurisdiction_def respond_def Let_def serviceRequests_handler_def parse_requests_body
      invoke_def convert_props_def)
     (simp add: sample_host_def sample_date_parse_def)

end
